theory Spec2Isabelle
  imports Main
begin

section \<open>Text\<close>

text \<open>
  The agent of \<^verbatim>\<open>src/agents/woocommerce_sync_coordinator.py\<close> works on Python
  strings.  A text is modelled as a \<^typ>\<open>string\<close> holding its UTF-8 bytes; the three
  characters of the source outside ASCII are written as their byte sequences.  The
  substring test of Python (\<^verbatim>\<open>w in s\<close>) on two texts agrees with the test on their
  UTF-8 bytes.
\<close>

definition apostrophe :: string where
  "apostrophe = [CHR 0x27]"

definition backtick :: string where
  "backtick = [CHR 0x60]"

definition cart :: string where
  "cart = [CHR 0xF0, CHR 0x9F, CHR 0x9B, CHR 0x92]"

definition arrow :: string where
  "arrow = [CHR 0xE2, CHR 0x86, CHR 0x92]"

definition check_mark :: string where
  "check_mark = [CHR 0xE2, CHR 0x9C, CHR 0x93]"

definition newline :: char where
  "newline = CHR 0x0A"

text \<open>The lines of a triple-quoted literal, joined by the line breaks between them.\<close>

fun join_lines :: "string list \<Rightarrow> string" where
  "join_lines [] = []"
| "join_lines [l] = l"
| "join_lines (l # l' # ls) = l @ newline # join_lines (l' # ls)"

text \<open>
  \<^verbatim>\<open>str.lower()\<close>, on the UTF-8 bytes.  The letters A to Z become a to z.  Two
  characters outside ASCII have a lower case that contains an ASCII letter, and both are
  mapped as Python maps them: the Kelvin sign U+212A becomes k, and the capital I with dot
  above, U+0130, becomes i followed by the combining dot U+0307.  Every other character
  outside ASCII is left as it is; Python maps some of them to other characters outside
  ASCII, which changes no byte below 128.  The lower-cased text is only ever searched for
  the keywords of the lists below, which are ASCII, and a keyword occurs in the text of
  the model exactly when it occurs in the text Python computes.
\<close>

definition lower_char :: "char \<Rightarrow> char" where
  "lower_char c =
     (case map_of (zip ''ABCDEFGHIJKLMNOPQRSTUVWXYZ'' ''abcdefghijklmnopqrstuvwxyz'') c of
        Some d \<Rightarrow> d
      | None \<Rightarrow> c)"

definition kelvin_sign :: string where
  "kelvin_sign = [CHR 0xE2, CHR 0x84, CHR 0xAA]"

definition capital_i_with_dot :: string where
  "capital_i_with_dot = [CHR 0xC4, CHR 0xB0]"

definition combining_dot :: string where
  "combining_dot = [CHR 0xCC, CHR 0x87]"

fun lower :: "string \<Rightarrow> string" where
  "lower [] = []"
| "lower (c # s) =
     (if take 3 (c # s) = kelvin_sign then CHR ''k'' # lower (drop 2 s)
      else if take 2 (c # s) = capital_i_with_dot then CHR ''i'' # combining_dot @ lower (drop 1 s)
      else lower_char c # lower s)"

text \<open>\<^verbatim>\<open>s.startswith(w)\<close> and the substring test \<^verbatim>\<open>w in s\<close>.\<close>

fun startswith :: "string \<Rightarrow> string \<Rightarrow> bool" where
  "startswith s [] = True"
| "startswith [] (c # w) = False"
| "startswith (d # s) (c # w) = (d = c \<and> startswith s w)"

fun py_in :: "string \<Rightarrow> string \<Rightarrow> bool" where
  "py_in w [] = (w = [])"
| "py_in w (c # s) = (startswith (c # s) w \<or> py_in w s)"

text \<open>\<^verbatim>\<open>any(word in text for word in words)\<close>.\<close>

definition any_in :: "string list \<Rightarrow> string \<Rightarrow> bool" where
  "any_in words text = list_ex (\<lambda>word. py_in word text) words"

section \<open>The agent and its responses\<close>

text \<open>
  \<^verbatim>\<open>WooCommerceSyncCoordinator.__init__\<close> reads two tokens from the environment and
  sets \<^verbatim>\<open>module_path\<close>.  The dictionaries \<^verbatim>\<open>module_info\<close> and
  \<^verbatim>\<open>business_context\<close> are never read and are left out.
\<close>

record agent =
  github_token :: "string option"
  cross_repo_token :: "string option"
  module_path :: string

type_synonym environ = "string \<Rightarrow> string option"

definition init :: "environ \<Rightarrow> agent" where
  "init env =
     \<lparr>github_token = env ''GITHUB_TOKEN'',
      cross_repo_token =
        (case env ''CROSS_REPO_TOKEN'' of Some t \<Rightarrow> Some t | None \<Rightarrow> env ''GITHUB_TOKEN''),
      module_path = ''/home/jason/odoo17_custom_addons/integration_woocommerce''\<rparr>"

definition handle_product_sync_request :: "agent \<Rightarrow> string \<Rightarrow> string \<Rightarrow> string" where
  "handle_product_sync_request self title body = join_lines
    [''## '' @ cart @ '' WooCommerce Sync Coordinator Response - Product Synchronization'',
     [],
     ''I'' @ apostrophe @ ''ll help you set up product synchronization between Odoo and WooCommerce.'',
     [],
     ''### Product Sync Capabilities:'',
     [],
     ''1. **Paint Product Structure**'',
     ''   - Simple products: Single paint products'',
     ''   - Variable products: Paint with color/size variants'',
     ''   - Bundles: Paint kits and accessories'',
     ''   - Custom attributes for Tikkurila formulas'',
     [],
     ''2. **Synchronization Process**'',
     ''   '' @ backtick @ backtick @ backtick @ ''python'',
     ''   # Module location: '' @ module_path self,
     ''   # Process flow:'',
     ''   # 1. Configure field mappings'',
     ''   # 2. Set sync direction (Odoo'' @ arrow @ ''WC, WC'' @ arrow @ ''Odoo, or both)'',
     ''   # 3. Enable job queue for bulk operations'',
     ''   # 4. Schedule or trigger sync'',
     ''   '' @ backtick @ backtick @ backtick,
     [],
     ''3. **Paint-Specific Mappings**'',
     ''   - Product name '' @ arrow @ '' WooCommerce title'',
     ''   - Tikkurila color code '' @ arrow @ '' Custom attribute'',
     ''   - Paint size variants '' @ arrow @ '' Variable product options'',
     ''   - Formula info '' @ arrow @ '' Product description/meta'',
     ''   - Stock levels '' @ arrow @ '' Inventory sync'',
     [],
     ''4. **Job Queue Processing**'',
     ''   - Bulk imports run in background'',
     ''   - Progress tracking via job dashboard'',
     ''   - Error handling and retry logic'',
     ''   - Avoids timeout issues'',
     [],
     ''### Configuration Steps:'',
     ''1. **Field Mapping**: Map Odoo fields to WooCommerce'',
     ''2. **Variant Setup**: Configure color/size attributes'',
     ''3. **Image Sync**: Product images and color swatches'',
     ''4. **Pricing**: Handle B2B/B2C price lists'',
     ''5. **Categories**: Map paint categories'',
     [],
     ''### Critical for Paint Business:'',
     ''- Ensure Tikkurila color codes sync correctly'',
     ''- Maintain formula integrity in descriptions'',
     ''- Handle paint size variants properly'',
     ''- Keep stock levels accurate'',
     [],
     ''---'',
     ''*Synchronizing paint products between Odoo and online store*'']"

definition handle_order_sync_request :: "agent \<Rightarrow> string \<Rightarrow> string \<Rightarrow> string" where
  "handle_order_sync_request self title body = join_lines
    [''## '' @ cart @ '' WooCommerce Sync Coordinator Response - Order Management'',
     [],
     ''### Order Synchronization Features:'',
     [],
     ''1. **Real-Time Order Import**'',
     ''   - Webhook triggers on order creation/update'',
     ''   - Immediate processing in Odoo'',
     ''   - No delay for customer orders'',
     ''   - Automatic customer creation'',
     [],
     ''2. **Webhook Configuration**'',
     ''   '' @ backtick @ backtick @ backtick,
     ''   WooCommerce '' @ arrow @ '' Webhook '' @ arrow @ '' Odoo Controller '' @ arrow @ '' Job Queue '' @ arrow @ '' Order Creation'',
     ''   '' @ backtick @ backtick @ backtick,
     ''   - Webhook URL: '' @ backtick @ ''https://[odoo-domain]/woocommerce/webhook/order'' @ backtick,
     ''   - Events: Order created, updated, completed'',
     ''   - Security: Webhook secret validation'',
     [],
     ''3. **Order Processing Flow**'',
     ''   - Order received via webhook'',
     ''   - Job queued for processing'',
     ''   - Customer matched/created'',
     ''   - Products mapped to Odoo'',
     ''   - Order created with proper workflow'',
     [],
     ''4. **Paint Order Specifics**'',
     ''   - Custom color selections'',
     ''   - Formula requirements captured'',
     ''   - B2B customer pricing applied'',
     ''   - Delivery instructions preserved'',
     [],
     ''### Job Queue Benefits:'',
     ''- Non-blocking order processing'',
     ''- Retry failed imports'',
     ''- Bulk order handling'',
     ''- Performance optimization'',
     [],
     ''### Configuration Requirements:'',
     ''1. Enable webhooks in WooCommerce'',
     ''2. Configure webhook secret'',
     ''3. Set order field mappings'',
     ''4. Define order workflow'',
     ''5. Test with sample orders'',
     [],
     ''### Error Handling:'',
     ''- Failed orders queued for retry'',
     ''- Email notifications on errors'',
     ''- Manual intervention options'',
     ''- Detailed error logs'',
     [],
     ''---'',
     ''*Ensuring paint orders flow seamlessly from web to warehouse*'']"

definition handle_job_queue_request :: "agent \<Rightarrow> string \<Rightarrow> string \<Rightarrow> string" where
  "handle_job_queue_request self title body = join_lines
    [''## '' @ cart @ '' WooCommerce Sync Coordinator Response - Job Queue System'',
     [],
     ''### Understanding the Job Queue Architecture:'',
     [],
     ''1. **What is Job Queue?**'',
     ''   - Asynchronous task processing system'',
     ''   - Based on OCA'' @ apostrophe @ ''s '' @ backtick @ ''queue_job'' @ backtick @ '' module'',
     ''   - Prevents timeouts on heavy operations'',
     ''   - Allows parallel processing'',
     [],
     ''2. **How It Works**'',
     ''   '' @ backtick @ backtick @ backtick,
     ''   Trigger '' @ arrow @ '' Create Job '' @ arrow @ '' Queue '' @ arrow @ '' Worker '' @ arrow @ '' Execute '' @ arrow @ '' Complete/Retry'',
     ''   '' @ backtick @ backtick @ backtick,
     ''   - Jobs run in background'',
     ''   - Multiple workers possible'',
     ''   - Automatic retry on failure'',
     ''   - Progress tracking'',
     [],
     ''3. **WooCommerce Integration Jobs**'',
     ''   - **Product Import/Export**: Bulk product sync'',
     ''   - **Order Import**: Process webhook data'',
     ''   - **Stock Update**: Inventory synchronization'',
     ''   - **Customer Sync**: B2B/B2C customer data'',
     [],
     ''4. **Job Channels**'',
     ''   '' @ backtick @ backtick @ backtick @ ''python'',
     ''   # Defined channels:'',
     ''   - root.woocommerce'',
     ''   - root.woocommerce.product'',
     ''   - root.woocommerce.order'',
     ''   '' @ backtick @ backtick @ backtick,
     ''   - Priority-based processing'',
     ''   - Resource allocation control'',
     ''   - Prevents system overload'',
     [],
     ''5. **Monitoring Jobs**'',
     ''   - Menu: Settings '' @ arrow @ '' Technical '' @ arrow @ '' Job Queue'',
     ''   - View pending/failed/done jobs'',
     ''   - Retry failed jobs manually'',
     ''   - Check execution logs'',
     [],
     ''### Benefits for Paint Business:'',
     ''- Import thousands of products without timeout'',
     ''- Process orders immediately via webhooks'',
     ''- Update stock levels in batches'',
     ''- Handle peak sales periods'',
     [],
     ''### Troubleshooting:'',
     ''- Check job queue dashboard'',
     ''- Verify worker processes running'',
     ''- Review failed job logs'',
     ''- Adjust job priorities if needed'',
     [],
     ''---'',
     ''*Asynchronous processing for reliable e-commerce integration*'']"

definition handle_configuration_request :: "agent \<Rightarrow> string \<Rightarrow> string \<Rightarrow> string" where
  "handle_configuration_request self title body = join_lines
    [''## '' @ cart @ '' WooCommerce Sync Coordinator Response - Configuration Guide'',
     [],
     ''### Initial Setup Steps:'',
     [],
     ''1. **WooCommerce API Configuration**'',
     ''   '' @ backtick @ backtick @ backtick,
     ''   Settings '' @ arrow @ '' Integrations '' @ arrow @ '' WooCommerce'',
     ''   '' @ backtick @ backtick @ backtick,
     ''   - Store URL: https://your-store.com'',
     ''   - Consumer Key: wc_xxxxxxxxxx'',
     ''   - Consumer Secret: cs_xxxxxxxxxx'',
     ''   - API Version: wc/v3 (recommended)'',
     [],
     ''2. **Webhook Setup**'',
     ''   - Go to WooCommerce '' @ arrow @ '' Settings '' @ arrow @ '' Advanced '' @ arrow @ '' Webhooks'',
     ''   - Create webhooks for:'',
     ''     - Order created'',
     ''     - Order updated'',
     ''     - Product updated (if bidirectional)'',
     ''   - Webhook URL format:'',
     ''     '' @ backtick @ backtick @ backtick,
     ''     https://[odoo-url]/woocommerce/webhook/[type]'',
     ''     '' @ backtick @ backtick @ backtick,
     [],
     ''3. **Field Mapping Configuration**'',
     ''   - Map Odoo fields to WooCommerce attributes'',
     ''   - Special mappings for paint products:'',
     ''     - Tikkurila codes '' @ arrow @ '' Custom attributes'',
     ''     - Paint sizes '' @ arrow @ '' Variations'',
     ''     - B2B prices '' @ arrow @ '' Wholesale prices'',
     [],
     ''4. **Job Queue Setup**'',
     ''   '' @ backtick @ backtick @ backtick @ ''bash'',
     ''   # Start job queue workers'',
     ''   python odoo-bin worker --db-filter=^your_db$'',
     ''   '' @ backtick @ backtick @ backtick,
     ''   - Configure worker count'',
     ''   - Set memory limits'',
     ''   - Enable auto-restart'',
     [],
     ''5. **Synchronization Settings**'',
     ''   - Sync direction (one-way or bidirectional)'',
     ''   - Automatic sync intervals'',
     ''   - Manual sync triggers'',
     ''   - Conflict resolution rules'',
     [],
     ''### Paint-Specific Configuration:'',
     ''- Enable variant sync for colors/sizes'',
     ''- Map formula fields to product meta'',
     ''- Configure B2B customer groups'',
     ''- Set inventory sync for paint stock'',
     [],
     ''### Testing Checklist:'',
     check_mark @ '' API connection test'',
     check_mark @ '' Webhook delivery test'',
     check_mark @ '' Sample product sync'',
     check_mark @ '' Test order creation'',
     check_mark @ '' Inventory update verification'',
     [],
     ''---'',
     ''*Configuring reliable paint product synchronization*'']"

definition general_response :: "agent \<Rightarrow> string \<Rightarrow> string" where
  "general_response self title = join_lines
    [''## '' @ cart @ '' WooCommerce Sync Coordinator Response'',
     [],
     ''I manage the integration between Odoo and WooCommerce for the paint business.'',
     [],
     ''### Current Request: '' @ title,
     [],
     ''### Module Capabilities:'',
     ''1. **Product Synchronization**'',
     ''   - Simple and variable products'',
     ''   - Paint colors and sizes'',
     ''   - Tikkurila formula data'',
     ''   - Image synchronization'',
     [],
     ''2. **Order Management**'',
     ''   - Real-time webhook import'',
     ''   - B2B/B2C customer handling'',
     ''   - Automatic workflow triggers'',
     ''   - Payment status sync'',
     [],
     ''3. **Inventory Control**'',
     ''   - Stock level updates'',
     ''   - Multi-warehouse support'',
     ''   - Low stock notifications'',
     ''   - Batch processing'',
     [],
     ''4. **Job Queue System**'',
     ''   - Asynchronous processing'',
     ''   - Bulk operations'',
     ''   - Error recovery'',
     ''   - Performance optimization'',
     [],
     ''### Architecture Overview:'',
     ''- Module: '' @ backtick @ ''integration_woocommerce'' @ backtick,
     ''- Dependencies: '' @ backtick @ ''queue_job'' @ backtick @ '', '' @ backtick @ ''integration'' @ backtick,
     ''- Processing: Webhook + Job Queue'',
     ''- Direction: Bidirectional sync'',
     [],
     ''### Business Impact:'',
     ''This integration ensures your paint products are accurately represented online, orders flow seamlessly to Odoo, and inventory stays synchronized across channels.'',
     [],
     ''How can I help with your specific WooCommerce integration need?'',
     [],
     ''---'',
     ''*E-commerce integration for paint manufacturing excellence*'']"

section \<open>The classifier\<close>

text \<open>
  PyGithub gives \<^verbatim>\<open>issue.body\<close> as \<^verbatim>\<open>None\<close> for an issue without a description,
  so the body is a \<^typ>\<open>string option\<close>; \<^verbatim>\<open>None.lower()\<close> raises
  \<^verbatim>\<open>AttributeError\<close>.  The calls on the tracker raise \<^verbatim>\<open>GithubException\<close>, and
  the constructor of a client raises \<^verbatim>\<open>AssertionError\<close> on an empty token.
\<close>

datatype exn = AttributeError | GithubException | AssertionError

definition product_words :: "string list" where
  "product_words = [''product'', ''sync'', ''variant'', ''color'']"

definition order_words :: "string list" where
  "order_words = [''order'', ''webhook'', ''real-time'']"

definition job_words :: "string list" where
  "job_words = [''job'', ''queue'', ''async'', ''background'']"

definition config_words :: "string list" where
  "config_words = [''config'', ''setup'', ''webhook'', ''api'']"

definition analyze_request :: "agent \<Rightarrow> string \<Rightarrow> string option \<Rightarrow> exn + string" where
  "analyze_request self issue_title issue_body =
     (let title_lower = lower issue_title in
      case issue_body of
        None \<Rightarrow> Inl AttributeError
      | Some body \<Rightarrow>
         (let body_lower = lower body in
          if any_in product_words (title_lower @ '' '' @ body_lower)
            then Inr (handle_product_sync_request self issue_title body)
          else if any_in order_words (title_lower @ '' '' @ body_lower)
            then Inr (handle_order_sync_request self issue_title body)
          else if any_in job_words (title_lower @ '' '' @ body_lower)
            then Inr (handle_job_queue_request self issue_title body)
          else if any_in config_words (title_lower @ '' '' @ body_lower)
            then Inr (handle_configuration_request self issue_title body)
          else Inr (general_response self issue_title)))"

section \<open>The issue tracker\<close>

text \<open>
  The collaborator is the issue tracker behind PyGithub.  An issue carries what the agent
  reads (number, title, body, the bodies of its comments, oldest first) and whether the
  two calls the agent makes on it raise.  A repository is its list of open issues and
  whether listing them raises; a repository name the tracker does not know makes
  \<^verbatim>\<open>get_repo\<close> raise.  The two clients (\<^verbatim>\<open>g\<close>, \<^verbatim>\<open>cross_g\<close>) differ only in
  their token; what a token lets a client see is not modelled, a repository the client
  cannot reach being a repository the tracker does not know.
\<close>

record issue =
  number :: nat
  title :: string
  body :: "string option"
  comments :: "string list"
  get_comments_raises :: bool
  create_comment_raises :: bool

record repository =
  issues :: "issue list"
  get_issues_raises :: bool

type_synonym tracker = "string \<Rightarrow> repository option"

text \<open>
  What a run does besides changing the tracker: the calls on the collaborator and the
  lines handed to the logger, in order.  A log line is kept as its kind and arguments,
  not as formatted text.
\<close>

datatype message =
    Starting
  | Token_not_set
  | Responded_to_issue nat
  | Responded_to string nat
  | Error_monitoring string exn
  | Agent_error exn
  | Traceback exn

datatype event =
    Get_repo string
  | Get_issues string
  | Get_comments nat
  | Create_comment nat string
  | Info message
  | Error message

text \<open>
  A step of the run: the exception it raised, if any, the state it leaves, and its events.
\<close>

type_synonym 'a outcome = "exn option \<times> 'a \<times> event list"

section \<open>The dispatcher\<close>

definition marker :: string where
  "marker = ''WooCommerce Sync Coordinator''"

definition get_comments :: "issue \<Rightarrow> exn + string list" where
  "get_comments issue =
     (if get_comments_raises issue then Inl GithubException else Inr (comments issue))"

definition already_responded :: "issue \<Rightarrow> exn + bool" where
  "already_responded issue =
     (case get_comments issue of
        Inl e \<Rightarrow> Inl e
      | Inr cs \<Rightarrow> Inr (list_ex (\<lambda>comment. py_in marker comment) cs))"

definition create_comment :: "issue \<Rightarrow> string \<Rightarrow> exn + issue" where
  "create_comment issue text =
     (if create_comment_raises issue then Inl GithubException
      else Inr (issue\<lparr>comments := comments issue @ [text]\<rparr>))"

text \<open>
  The three lines both loops of \<^verbatim>\<open>process_issues\<close> share: the idempotence check,
  the classifier, the comment, the log line (\<open>msg\<close> is the loop's own).
\<close>

definition respond :: "agent \<Rightarrow> (nat \<Rightarrow> message) \<Rightarrow> issue \<Rightarrow> issue outcome" where
  "respond self msg issue =
     (case already_responded issue of
        Inl e \<Rightarrow> (Some e, issue, [Get_comments (number issue)])
      | Inr True \<Rightarrow> (None, issue, [Get_comments (number issue)])
      | Inr False \<Rightarrow>
          (case analyze_request self (title issue) (body issue) of
             Inl e \<Rightarrow> (Some e, issue, [Get_comments (number issue)])
           | Inr response \<Rightarrow>
               (case create_comment issue response of
                  Inl e \<Rightarrow>
                    (Some e, issue,
                     [Get_comments (number issue), Create_comment (number issue) response])
                | Inr issue' \<Rightarrow>
                    (None, issue',
                     [Get_comments (number issue), Create_comment (number issue) response,
                      Info (msg (number issue))]))))"

definition relevance_words :: "string list" where
  "relevance_words =
     [''woocommerce'', ''ecommerce'', ''e-commerce'', ''online store'',
      ''webhook'', ''shop sync'', ''product sync'']"

text \<open>The test of the monitoring loop: does the issue mention WooCommerce or e-commerce.\<close>

definition mentions_ecommerce :: "issue \<Rightarrow> exn + bool" where
  "mentions_ecommerce issue =
     (case body issue of
        None \<Rightarrow> Inl AttributeError
      | Some b \<Rightarrow> Inr (any_in relevance_words (lower (title issue) @ '' '' @ lower b)))"

definition respond_if_relevant :: "agent \<Rightarrow> string \<Rightarrow> issue \<Rightarrow> issue outcome" where
  "respond_if_relevant self repo_name issue =
     (case mentions_ecommerce issue of
        Inl e \<Rightarrow> (Some e, issue, [])
      | Inr False \<Rightarrow> (None, issue, [])
      | Inr True \<Rightarrow> respond self (Responded_to repo_name) issue)"

text \<open>
  \<^verbatim>\<open>for issue in repo.get_issues(state='open')\<close>: the body runs on each issue in turn;
  an exception leaves the loop, and the issues after it are not visited.
\<close>

fun for_each :: "(issue \<Rightarrow> issue outcome) \<Rightarrow> issue list \<Rightarrow> issue list outcome" where
  "for_each f [] = (None, [], [])"
| "for_each f (issue # rest) =
     (case f issue of
        (Some e, issue', evs) \<Rightarrow> (Some e, issue' # rest, evs)
      | (None, issue', evs) \<Rightarrow>
          (case for_each f rest of
             (r, rest', evs') \<Rightarrow> (r, issue' # rest', evs @ evs')))"

text \<open>\<^verbatim>\<open>get_repo\<close>, \<^verbatim>\<open>get_issues\<close> and the loop over the open issues of one repository.\<close>

definition scan :: "string \<Rightarrow> (issue \<Rightarrow> issue outcome) \<Rightarrow> tracker \<Rightarrow> tracker outcome" where
  "scan repo_name f tracker =
     (case tracker repo_name of
        None \<Rightarrow> (Some GithubException, tracker, [Get_repo repo_name])
      | Some repo \<Rightarrow>
          if get_issues_raises repo
          then (Some GithubException, tracker, [Get_repo repo_name, Get_issues repo_name])
          else
            (case for_each f (issues repo) of
               (r, issues', evs) \<Rightarrow>
                 (r, tracker(repo_name \<mapsto> repo\<lparr>issues := issues'\<rparr>),
                  Get_repo repo_name # Get_issues repo_name # evs)))"

definition home_repo :: string where
  "home_repo = ''jayo2005/paint-woocommerce-operations''"

definition repos_to_monitor :: "string list" where
  "repos_to_monitor =
     [''jayo2005/paint-odoo-operations'',
      ''jayo2005/paint-project-orchestration'',
      ''jayo2005/paint-wordpress-operations'']"

text \<open>
  \<^verbatim>\<open>for repo_name in repos_to_monitor\<close>, with its \<^verbatim>\<open>try\<close>: an exception raised while
  a repository is scanned is logged and the loop goes on with the next name.
\<close>

fun monitor :: "agent \<Rightarrow> string list \<Rightarrow> tracker \<Rightarrow> tracker \<times> event list" where
  "monitor self [] tracker = (tracker, [])"
| "monitor self (repo_name # rest) tracker =
     (case scan repo_name (respond_if_relevant self repo_name) tracker of
        (r, tracker', evs) \<Rightarrow>
          (case monitor self rest tracker' of
             (tracker'', evs') \<Rightarrow>
               (tracker'',
                evs @ (case r of None \<Rightarrow> [] | Some e \<Rightarrow> [Error (Error_monitoring repo_name e)])
                    @ evs')))"

text \<open>\<^verbatim>\<open>not self.github_token\<close> holds of \<^verbatim>\<open>None\<close> and of the empty string.\<close>

definition truthy :: "string option \<Rightarrow> bool" where
  "truthy t = (case t of None \<Rightarrow> False | Some s \<Rightarrow> s \<noteq> [])"

text \<open>
  \<^verbatim>\<open>Github(token)\<close>, the constructor of a client.  It sends nothing to the tracker.
  PyGithub 2 wraps a token that is not \<^verbatim>\<open>None\<close> in \<^verbatim>\<open>Auth.Token\<close>, which asserts
  that the token is not empty; any other token, and \<^verbatim>\<open>None\<close>, give a client.
\<close>

datatype client = Client "string option"

definition Github :: "string option \<Rightarrow> exn + client" where
  "Github login_or_token =
     (if login_or_token = Some [] then Inl AssertionError else Inr (Client login_or_token))"

text \<open>
  \<^verbatim>\<open>process_issues\<close>.  The outer \<^verbatim>\<open>except Exception\<close> catches what the two
  constructors and the scan of the home repository raise, logs it with its traceback, and
  the method returns.
\<close>

definition process_issues :: "agent \<Rightarrow> tracker \<Rightarrow> tracker \<times> event list" where
  "process_issues self tracker =
     (if \<not> truthy (github_token self) then (tracker, [Error Token_not_set])
      else
        (case Github (github_token self) of
           Inl e \<Rightarrow> (tracker, [Error (Agent_error e), Error (Traceback e)])
         | Inr g \<Rightarrow>
            (case Github (cross_repo_token self) of
               Inl e \<Rightarrow> (tracker, [Error (Agent_error e), Error (Traceback e)])
             | Inr cross_g \<Rightarrow>
                (case scan home_repo (respond self Responded_to_issue) tracker of
                   (Some e, tracker', evs) \<Rightarrow>
                     (tracker', evs @ [Error (Agent_error e), Error (Traceback e)])
                 | (None, tracker', evs) \<Rightarrow>
                     (case monitor self repos_to_monitor tracker' of
                        (tracker'', evs') \<Rightarrow> (tracker'', evs @ evs'))))))"

definition main :: "environ \<Rightarrow> tracker \<Rightarrow> tracker \<times> event list" where
  "main env tracker =
     (case process_issues (init env) tracker of
        (tracker', evs) \<Rightarrow> (tracker', Info Starting # evs))"

section \<open>The classifier of the specification\<close>

text \<open>
  The specification describes \<^verbatim>\<open>analyze_request\<close> as a classifier into five
  categories followed by a template lookup.  These definitions follow its words (the
  categories, their keyword sets in priority order, first match wins, \<open>General\<close> when
  none matches); the theorems below compare them with the code.
\<close>

datatype category = Product_sync | Order_sync | Job_queue | Configuration | General

definition priority_order :: "(category \<times> string list) list" where
  "priority_order =
     [(Product_sync, product_words), (Order_sync, order_words),
      (Job_queue, job_words), (Configuration, config_words)]"

definition classifier :: "string \<Rightarrow> string \<Rightarrow> category" where
  "classifier t b =
     (case find (\<lambda>(c, words). any_in words (lower t @ '' '' @ lower b)) priority_order of
        Some (c, words) \<Rightarrow> c
      | None \<Rightarrow> General)"

fun response :: "agent \<Rightarrow> category \<Rightarrow> string \<Rightarrow> string \<Rightarrow> string" where
  "response self Product_sync t b = handle_product_sync_request self t b"
| "response self Order_sync t b = handle_order_sync_request self t b"
| "response self Job_queue t b = handle_job_queue_request self t b"
| "response self Configuration t b = handle_configuration_request self t b"
| "response self General t b = general_response self t"

text \<open>The first 45 bytes of every response: the heading up to the word Response.\<close>

definition heading :: string where
  "heading = ''## '' @ cart @ '' WooCommerce Sync Coordinator Response''"

definition tag :: "category \<Rightarrow> string" where
  "tag c =
     (case c of
        Product_sync \<Rightarrow> '' - P''
      | Order_sync \<Rightarrow> '' - O''
      | Job_queue \<Rightarrow> '' - J''
      | Configuration \<Rightarrow> '' - C''
      | General \<Rightarrow> [newline])"

section \<open>What a sweep may do to an issue\<close>

text \<open>
  Predicates for stating the properties of the dispatcher.  An issue bears the marker when
  one of its comments contains it.  An issue of a repository qualifies when the
  repository is the home repository, or is monitored and the issue passes the relevance
  test.  \<open>one_more_comment i i'\<close>: \<open>i'\<close> is \<open>i\<close> with exactly one comment appended,
  and that comment contains the marker.
\<close>

definition bears_marker :: "issue \<Rightarrow> bool" where
  "bears_marker i = list_ex (\<lambda>comment. py_in marker comment) (comments i)"

definition qualifies :: "string \<Rightarrow> issue \<Rightarrow> bool" where
  "qualifies repo_name i =
     (repo_name = home_repo \<or>
      (repo_name \<in> set repos_to_monitor \<and> mentions_ecommerce i = Inr True))"

definition one_more_comment :: "issue \<Rightarrow> issue \<Rightarrow> bool" where
  "one_more_comment i i' =
     (comments i' \<noteq> [] \<and> py_in marker (last (comments i')) \<and>
      i' = i\<lparr>comments := comments i @ [last (comments i')]\<rparr>)"

definition issue_step :: "string \<Rightarrow> issue \<Rightarrow> issue \<Rightarrow> bool" where
  "issue_step repo_name i i' =
     (i' = i \<or> (qualifies repo_name i \<and> \<not> bears_marker i \<and> one_more_comment i i'))"

definition repo_step :: "string \<Rightarrow> repository option \<Rightarrow> repository option \<Rightarrow> bool" where
  "repo_step repo_name ro ro' =
     (case (ro, ro') of
        (None, None) \<Rightarrow> True
      | (Some r, Some r') \<Rightarrow>
          r' = r\<lparr>issues := issues r'\<rparr> \<and> list_all2 (issue_step repo_name) (issues r) (issues r')
      | _ \<Rightarrow> False)"

text \<open>The tracker after \<open>k\<close> runs of \<^verbatim>\<open>process_issues\<close>, nothing else touching it.\<close>

fun sweeps :: "agent \<Rightarrow> nat \<Rightarrow> tracker \<Rightarrow> tracker" where
  "sweeps self 0 tracker = tracker"
| "sweeps self (Suc k) tracker = sweeps self k (fst (process_issues self tracker))"

text \<open>The comment \<^verbatim>\<open>analyze_request\<close> returns for an issue whose body is a text.\<close>

definition answer :: "agent \<Rightarrow> issue \<Rightarrow> string" where
  "answer self i =
     (case body i of
        None \<Rightarrow> []
      | Some b \<Rightarrow> response self (classifier (title i) b) (title i) b)"




text \<open>
  The tokens of an agent are usable when \<^verbatim>\<open>process_issues\<close> gets past the token check
  and both constructors: the first token is set and not empty, the second is not empty.
\<close>

definition tokens_usable :: "agent \<Rightarrow> bool" where
  "tokens_usable self = (truthy (github_token self) \<and> cross_repo_token self \<noteq> Some [])"




text \<open>The calls on the collaborator among the events of a run.\<close>

fun is_call :: "event \<Rightarrow> bool" where
  "is_call (Info m) = False"
| "is_call (Error m) = False"
| "is_call e = True"

section \<open>A small tracker\<close>

text \<open>
  Concrete agents, issues and trackers on which the theorems are instantiated.
\<close>

definition example_agent :: agent where
  "example_agent = init (\<lambda>k. if k = ''GITHUB_TOKEN'' then Some ''token'' else None)"

definition webhook_issue :: issue where
  "webhook_issue =
     \<lparr>number = 7, title = ''How to setup webhook'', body = Some [], comments = [],
      get_comments_raises = False, create_comment_raises = False\<rparr>"

definition order_issue :: issue where
  "order_issue =
     \<lparr>number = 8, title = ''Order job stuck'', body = Some ''since Monday'', comments = [],
      get_comments_raises = False, create_comment_raises = False\<rparr>"

definition rejected_issue :: issue where
  "rejected_issue =
     \<lparr>number = 9, title = ''WooCommerce import'', body = Some ''fails'', comments = [],
      get_comments_raises = False, create_comment_raises = True\<rparr>"

definition answered_issue :: issue where
  "answered_issue =
     \<lparr>number = 3, title = ''Color variants'', body = Some ''see title'',
      comments = [''## WooCommerce Sync Coordinator Response''],
      get_comments_raises = False, create_comment_raises = False\<rparr>"

definition odoo_repo :: string where
  "odoo_repo = ''jayo2005/paint-odoo-operations''"

definition example_tracker :: tracker where
  "example_tracker =
     [home_repo \<mapsto> \<lparr>issues = [order_issue, answered_issue], get_issues_raises = False\<rparr>,
      odoo_repo \<mapsto> \<lparr>issues = [order_issue, webhook_issue], get_issues_raises = False\<rparr>,
      ''jayo2005/paint-project-orchestration'' \<mapsto> \<lparr>issues = [], get_issues_raises = False\<rparr>,
      ''jayo2005/paint-wordpress-operations'' \<mapsto> \<lparr>issues = [], get_issues_raises = False\<rparr>]"

definition tracker_without_home :: tracker where
  "tracker_without_home =
     [odoo_repo \<mapsto> \<lparr>issues = [webhook_issue], get_issues_raises = False\<rparr>]"

definition tracker_with_rejection :: tracker where
  "tracker_with_rejection =
     [home_repo \<mapsto> \<lparr>issues = [], get_issues_raises = False\<rparr>,
      odoo_repo \<mapsto> \<lparr>issues = [rejected_issue, webhook_issue], get_issues_raises = False\<rparr>]"



section \<open>Facts about texts\<close>

lemma startswith_iff: "startswith s w \<longleftrightarrow> (\<exists>q. s = w @ q)"
  by (induction s w rule: startswith.induct) auto

lemma py_in_iff: "py_in w s \<longleftrightarrow> (\<exists>p q. s = p @ w @ q)"
proof (induction s)
  case Nil
  then show ?case by auto
next
  case (Cons c s)
  show ?case
  proof
    assume "py_in w (c # s)"
    then consider "startswith (c # s) w" | "py_in w s" by auto
    then show "\<exists>p q. c # s = p @ w @ q"
    proof cases
      case 1
      then obtain q where "c # s = w @ q" by (auto simp: startswith_iff)
      then have "c # s = [] @ w @ q" by simp
      then show ?thesis by blast
    next
      case 2
      then obtain p q where "s = p @ w @ q" using Cons.IH by blast
      then have "c # s = (c # p) @ w @ q" by simp
      then show ?thesis by blast
    qed
  next
    assume "\<exists>p q. c # s = p @ w @ q"
    then obtain p q where pq: "c # s = p @ w @ q" by blast
    show "py_in w (c # s)"
    proof (cases p)
      case Nil
      with pq have "startswith (c # s) w" by (auto simp: startswith_iff)
      then show ?thesis by simp
    next
      case (Cons d p')
      with pq have "s = p' @ w @ q" by simp
      then have "py_in w s" using Cons.IH by blast
      then show ?thesis by simp
    qed
  qed
qed

lemma py_in_append: "py_in w s \<Longrightarrow> py_in w (p @ s @ q)"
proof -
  assume "py_in w s"
  then obtain a b where "s = a @ w @ b" by (auto simp: py_in_iff)
  then have "p @ s @ q = (p @ a) @ w @ (b @ q)" by simp
  then show ?thesis unfolding py_in_iff by blast
qed

lemma join_lines_Cons: "\<exists>q. join_lines (l # ls) = l @ q"
  by (cases ls) auto

lemma py_in_join_lines: "py_in w l \<Longrightarrow> py_in w (join_lines (l # ls))"
proof -
  assume a: "py_in w l"
  obtain q where "join_lines (l # ls) = l @ q" using join_lines_Cons by blast
  then show ?thesis using py_in_append [OF a, of "[]" q] by simp
qed

lemma marker_in_heading: "py_in marker (heading @ s)"
proof -
  have "heading @ s = (''## '' @ cart @ '' '') @ marker @ ('' Response'' @ s)"
    by (simp add: heading_def marker_def)
  then show ?thesis unfolding py_in_iff by blast
qed

lemma product_heading: "\<exists>q. handle_product_sync_request self t b = heading @ '' - P'' @ q"
  unfolding handle_product_sync_request_def heading_def by (simp add: cart_def)

lemma order_heading: "\<exists>q. handle_order_sync_request self t b = heading @ '' - O'' @ q"
  unfolding handle_order_sync_request_def heading_def by (simp add: cart_def)

lemma job_heading: "\<exists>q. handle_job_queue_request self t b = heading @ '' - J'' @ q"
  unfolding handle_job_queue_request_def heading_def by (simp add: cart_def)

lemma configuration_heading: "\<exists>q. handle_configuration_request self t b = heading @ '' - C'' @ q"
  unfolding handle_configuration_request_def heading_def by (simp add: cart_def)

lemma general_heading: "\<exists>q. general_response self t = heading @ newline # q"
  unfolding general_response_def heading_def by (simp add: cart_def)

lemma response_heading: "\<exists>q. response self c t b = heading @ tag c @ q"
  using product_heading [of self t b] order_heading [of self t b] job_heading [of self t b]
    configuration_heading [of self t b] general_heading [of self t]
  by (cases c) (auto simp: tag_def)

lemma tag_inj: "tag c @ q = tag c' @ q' \<Longrightarrow> c = c'"
  by (cases c; cases c') (auto simp: tag_def newline_def)

lemma response_inj: "response self c t b = response self c' t' b' \<Longrightarrow> c = c'"
proof -
  assume eq: "response self c t b = response self c' t' b'"
  obtain q where q: "response self c t b = heading @ tag c @ q"
    using response_heading by blast
  obtain q' where q': "response self c' t' b' = heading @ tag c' @ q'"
    using response_heading by blast
  from eq q q' have "tag c @ q = tag c' @ q'" by simp
  then show ?thesis by (rule tag_inj)
qed

lemma marker_in_response: "py_in marker (response self c t b)"
proof -
  obtain q where "response self c t b = heading @ tag c @ q"
    using response_heading by blast
  then show ?thesis by (simp add: marker_in_heading)
qed

lemma analyze_request_classifier:
  "analyze_request self t (Some b) = Inr (response self (classifier t b) t b)"
  by (simp add: analyze_request_def classifier_def priority_order_def)

lemma general_response_title: "\<exists>pre post. \<forall>t. general_response self t = pre @ t @ post"
proof -
  have "\<forall>t. general_response self t = 
    join_lines [''## '' @ cart @ '' WooCommerce Sync Coordinator Response'', [], 
      ''I manage the integration between Odoo and WooCommerce for the paint business.'', [], ''### Current Request: ''] @ t @ 
    drop (length (join_lines [''## '' @ cart @ '' WooCommerce Sync Coordinator Response'', [], 
      ''I manage the integration between Odoo and WooCommerce for the paint business.'', [], ''### Current Request: '']))
      (general_response self [])"
    unfolding general_response_def by (simp add: cart_def)
  then show ?thesis by blast
qed

lemma general_response_inj: "general_response self t = general_response self t' \<Longrightarrow> t = t'"
  unfolding general_response_def by (simp add: cart_def)

section \<open>Facts about the dispatcher\<close>

lemma analyze_request_None: "analyze_request self t None = Inl AttributeError"
  by (simp add: analyze_request_def)

lemma analyze_request_Inr:
  "analyze_request self t bo = Inr x \<Longrightarrow> \<exists>b. bo = Some b \<and> x = response self (classifier t b) t b"
  by (cases bo) (auto simp: analyze_request_None analyze_request_classifier)

lemma marker_in_analyze_request: "analyze_request self t bo = Inr x \<Longrightarrow> py_in marker x"
  by (auto dest!: analyze_request_Inr simp: marker_in_response)

lemma respond_step:
  "respond self msg i = (res, i', evs) \<Longrightarrow>
     i' = i \<or> (res = None \<and> \<not> bears_marker i \<and> one_more_comment i i')"
  by (auto simp: respond_def already_responded_def get_comments_def create_comment_def
      bears_marker_def one_more_comment_def marker_in_analyze_request
      split: sum.splits bool.splits if_splits)

lemma respond_if_relevant_step:
  "respond_if_relevant self n i = (res, i', evs) \<Longrightarrow>
     i' = i \<or> (res = None \<and> mentions_ecommerce i = Inr True \<and> \<not> bears_marker i \<and> one_more_comment i i')"
  by (auto simp: respond_if_relevant_def dest: respond_step split: sum.splits bool.splits)

lemma for_each_step:
  assumes f: "\<And>i res i' evs. f i = (res, i', evs) \<Longrightarrow> R i i'"
    and refl: "\<And>i. R i i"
  shows "for_each f xs = (res, xs', evs) \<Longrightarrow> list_all2 R xs xs'"
proof (induction xs arbitrary: res xs' evs)
  case Nil
  then show ?case by simp
next
  case (Cons i xs)
  obtain r i' ev where fi: "f i = (r, i', ev)" by (cases "f i") auto
  have R: "R i i'" using f [OF fi] .
  show ?case
  proof (cases r)
    case (Some e)
    with Cons.prems fi have "xs' = i' # xs" by simp
    with R show ?thesis by (simp add: list_all2_refl refl)
  next
    case None
    obtain r2 ys ev2 where rest: "for_each f xs = (r2, ys, ev2)"
      by (cases "for_each f xs") auto
    with Cons.prems fi None have "xs' = i' # ys" by simp
    with R Cons.IH [OF rest] show ?thesis by simp
  qed
qed

lemma issue_step_refl: "issue_step n i i"
  by (simp add: issue_step_def)

lemma one_more_comment_bears: "one_more_comment i i' \<Longrightarrow> bears_marker i'"
  by (auto simp: one_more_comment_def bears_marker_def list_ex_iff intro: bexI [where x = "last (comments i')"])

lemma issue_step_trans: "issue_step n i i' \<Longrightarrow> issue_step n i' i'' \<Longrightarrow> issue_step n i i''"
  by (auto simp: issue_step_def dest: one_more_comment_bears)

lemma list_all2_issue_step_trans:
  "list_all2 (issue_step n) xs ys \<Longrightarrow> list_all2 (issue_step n) ys zs \<Longrightarrow>
     list_all2 (issue_step n) xs zs"
  using list_all2_trans [of "issue_step n" "issue_step n" "issue_step n" xs ys zs]
  by (blast intro: issue_step_trans)

lemma repo_step_refl: "repo_step n ro ro"
  by (cases ro) (simp_all add: repo_step_def list_all2_refl issue_step_refl)

lemma repo_step_trans: "repo_step n a b \<Longrightarrow> repo_step n b c \<Longrightarrow> repo_step n a c"
  apply (cases a; cases b; cases c)
  apply (simp_all add: repo_step_def)
  apply (auto intro: list_all2_issue_step_trans)
  apply (metis repository.surjective repository.update_convs(1))
  done

lemma home_not_monitored: "home_repo \<notin> set repos_to_monitor"
  by (simp add: home_repo_def repos_to_monitor_def)


lemma scan_shape:
  "scan n f tr = (res, tr', evs) \<Longrightarrow>
     tr' = tr \<or> (\<exists>r r2 ys ev. tr n = Some r \<and> \<not> get_issues_raises r \<and>
        for_each f (issues r) = (r2, ys, ev) \<and> tr' = tr(n \<mapsto> r\<lparr>issues := ys\<rparr>))"
  by (auto simp: scan_def split: option.splits if_splits prod.splits)

lemma scan_step:
  assumes f: "\<And>i res i' evs. f i = (res, i', evs) \<Longrightarrow> issue_step n i i'"
    and scan: "scan n f tr = (res, tr', evs)"
  shows "repo_step m (tr m) (tr' m)"
proof -
  from scan_shape [OF scan] show ?thesis
  proof
    assume "tr' = tr"
    then show ?thesis by (simp add: repo_step_refl)
  next
    assume "\<exists>r r2 ys ev. tr n = Some r \<and> \<not> get_issues_raises r \<and>
        for_each f (issues r) = (r2, ys, ev) \<and> tr' = tr(n \<mapsto> r\<lparr>issues := ys\<rparr>)"
    then obtain r r2 ys ev where r: "tr n = Some r"
      and fe: "for_each f (issues r) = (r2, ys, ev)"
      and tr': "tr' = tr(n \<mapsto> r\<lparr>issues := ys\<rparr>)" by blast
    have all2: "list_all2 (issue_step n) (issues r) ys"
      using for_each_step [of f "issue_step n", OF f issue_step_refl fe] .
    show ?thesis
    proof (cases "m = n")
      case True
      with r tr' all2 show ?thesis by (simp add: repo_step_def)
    next
      case False
      with tr' show ?thesis by (simp add: repo_step_refl)
    qed
  qed
qed

lemma respond_issue_step: "respond self msg i = (res, i', evs) \<Longrightarrow> issue_step home_repo i i'"
  by (auto simp: issue_step_def qualifies_def dest: respond_step)

lemma respond_if_relevant_issue_step:
  "n \<in> set repos_to_monitor \<Longrightarrow> respond_if_relevant self n i = (res, i', evs) \<Longrightarrow>
     issue_step n i i'"
  by (auto simp: issue_step_def qualifies_def dest: respond_if_relevant_step)

lemma monitor_step:
  "set ns \<subseteq> set repos_to_monitor \<Longrightarrow> repo_step m (tr m) (fst (monitor self ns tr) m)"
proof (induction ns arbitrary: tr)
  case Nil
  then show ?case by (simp add: repo_step_refl)
next
  case (Cons n ns)
  obtain r tr' evs where sc: "scan n (respond_if_relevant self n) tr = (r, tr', evs)"
    by (cases "scan n (respond_if_relevant self n) tr") auto
  from Cons.prems have n: "n \<in> set repos_to_monitor" and ns: "set ns \<subseteq> set repos_to_monitor"
    by auto
  have 1: "repo_step m (tr m) (tr' m)"
    by (rule scan_step [OF _ sc]) (rule respond_if_relevant_issue_step [OF n])
  have 2: "repo_step m (tr' m) (fst (monitor self ns tr') m)"
    by (rule Cons.IH [OF ns])
  have "fst (monitor self (n # ns) tr) = fst (monitor self ns tr')"
    using sc by (simp split: prod.splits)
  with repo_step_trans [OF 1 2] show ?case by simp
qed

lemma process_issues_usable:
  "tokens_usable self \<Longrightarrow>
     process_issues self tr =
       (case scan home_repo (respond self Responded_to_issue) tr of
          (Some e, tr', evs) \<Rightarrow> (tr', evs @ [Error (Agent_error e), Error (Traceback e)])
        | (None, tr', evs) \<Rightarrow>
            (case monitor self repos_to_monitor tr' of
               (tr'', evs') \<Rightarrow> (tr'', evs @ evs')))"
  by (auto simp: process_issues_def tokens_usable_def Github_def truthy_def
      split: option.splits)

lemma process_issues_unusable:
  "\<not> tokens_usable self \<Longrightarrow> fst (process_issues self tr) = tr"
  by (auto simp: process_issues_def tokens_usable_def Github_def truthy_def
      split: option.splits)

lemma process_issues_step: "repo_step m (tr m) (fst (process_issues self tr) m)"
proof (cases "tokens_usable self")
  case False
  then show ?thesis by (simp add: process_issues_unusable repo_step_refl)
next
  case True
  obtain r tr' evs where sc: "scan home_repo (respond self Responded_to_issue) tr = (r, tr', evs)"
    by (cases "scan home_repo (respond self Responded_to_issue) tr") auto
  have 1: "repo_step m (tr m) (tr' m)"
    by (rule scan_step [OF _ sc]) (rule respond_issue_step)
  show ?thesis
  proof (cases r)
    case (Some e)
    with True sc 1 show ?thesis by (simp add: process_issues_usable)
  next
    case None
    have 2: "repo_step m (tr' m) (fst (monitor self repos_to_monitor tr') m)"
      by (rule monitor_step) simp
    have "fst (process_issues self tr) = fst (monitor self repos_to_monitor tr')"
      using True sc None by (simp add: process_issues_usable split: prod.splits)
    with repo_step_trans [OF 1 2] show ?thesis by simp
  qed
qed

lemma sweeps_step: "repo_step m (tr m) (sweeps self k tr m)"
proof (induction k arbitrary: tr)
  case 0
  then show ?case by (simp add: repo_step_refl)
next
  case (Suc k)
  show ?case
    using repo_step_trans [OF process_issues_step [of m tr self] Suc.IH [of "fst (process_issues self tr)"]]
    by simp
qed




lemma respond_raises_create: "\<not> get_comments_raises i \<Longrightarrow> \<not> bears_marker i \<Longrightarrow>
  body i = Some b \<Longrightarrow> create_comment_raises i \<Longrightarrow>
  respond self msg i = (Some GithubException, i,
     [Get_comments (number i), Create_comment (number i) (answer self i)])"
  by (simp add: respond_def already_responded_def get_comments_def bears_marker_def
      analyze_request_classifier create_comment_def answer_def)

lemma respond_posts: "\<not> get_comments_raises i \<Longrightarrow> \<not> bears_marker i \<Longrightarrow>
  body i = Some b \<Longrightarrow> \<not> create_comment_raises i \<Longrightarrow>
  respond self msg i = (None, i\<lparr>comments := comments i @ [answer self i]\<rparr>,
     [Get_comments (number i), Create_comment (number i) (answer self i),
      Info (msg (number i))])"
  by (simp add: respond_def already_responded_def get_comments_def bears_marker_def
      analyze_request_classifier create_comment_def answer_def)




lemma mentions_ecommerce_comments:
  "mentions_ecommerce (i\<lparr>comments := cs\<rparr>) = mentions_ecommerce i"
  by (simp add: mentions_ecommerce_def split: option.splits)







lemma scan_frame: "scan n f tr = (res, tr', evs) \<Longrightarrow> m \<noteq> n \<Longrightarrow> tr' m = tr m"
  by (auto dest!: scan_shape)

lemma monitor_frame: "m \<notin> set ns \<Longrightarrow> fst (monitor self ns tr) m = tr m"
proof (induction ns arbitrary: tr)
  case Nil
  then show ?case by simp
next
  case (Cons n ns)
  obtain r tr' evs where sc: "scan n (respond_if_relevant self n) tr = (r, tr', evs)"
    by (cases "scan n (respond_if_relevant self n) tr") auto
  have "fst (monitor self (n # ns) tr) = fst (monitor self ns tr')"
    using sc by (simp split: prod.splits)
  moreover have "fst (monitor self ns tr') m = tr' m" using Cons by simp
  moreover have "tr' m = tr m" using scan_frame [OF sc] Cons.prems by simp
  ultimately show ?case by simp
qed










lemma monitor_goes_on_after_failure:
  "scan n (respond_if_relevant self n) tr = (Some e, tr', evs) \<Longrightarrow>
     monitor self (n # ns) tr =
       (fst (monitor self ns tr'), evs @ Error (Error_monitoring n e) # snd (monitor self ns tr'))"
  by (simp split: prod.splits)





lemma qualifies_comments: "qualifies n (i\<lparr>comments := cs\<rparr>) = qualifies n i"
  by (simp add: qualifies_def mentions_ecommerce_comments)



lemma classifier_product:
  "any_in product_words (lower t @ '' '' @ lower b) \<Longrightarrow> classifier t b = Product_sync"
  by (simp add: classifier_def priority_order_def)

lemma any_inI: "w \<in> set ws \<Longrightarrow> py_in w s \<Longrightarrow> any_in ws s"
  by (auto simp: any_in_def list_ex_iff)

lemma classifier_order:
  "\<not> any_in product_words (lower t @ '' '' @ lower b) \<Longrightarrow>
   any_in order_words (lower t @ '' '' @ lower b) \<Longrightarrow> classifier t b = Order_sync"
  by (simp add: classifier_def priority_order_def)

lemma classifier_general:
  "\<not> any_in product_words (lower t @ '' '' @ lower b) \<Longrightarrow>
   \<not> any_in order_words (lower t @ '' '' @ lower b) \<Longrightarrow>
   \<not> any_in job_words (lower t @ '' '' @ lower b) \<Longrightarrow>
   \<not> any_in config_words (lower t @ '' '' @ lower b) \<Longrightarrow> classifier t b = General"
  by (simp add: classifier_def priority_order_def)

lemmas eval_words = any_in_def product_words_def order_words_def job_words_def
  config_words_def relevance_words_def lower_char_def kelvin_sign_def capital_i_with_dot_def
  combining_dot_def

text \<open>
  Claim C2.  The classifier tests the keyword sets in the order product_sync, order_sync,
  job_queue, configuration and returns the first category one of whose keywords is a
  substring of the lower-cased title, a space, and the lower-cased body.  First conjunct:
  \<^verbatim>\<open>analyze_request\<close> returns the response of the category that \<open>classifier\<close>, the
  first-match search over \<open>priority_order\<close>, finds.  Second: a text containing a
  product_sync keyword is product_sync.  Third: a text containing both order and job and no
  product_sync keyword is order_sync.
\<close>

theorem classifier_first_match:
  "analyze_request self t (Some b) = Inr (response self (classifier t b) t b) \<and>
   (any_in product_words (lower t @ '' '' @ lower b) \<longrightarrow>
      classifier t b = Product_sync \<and>
      analyze_request self t (Some b) = Inr (handle_product_sync_request self t b)) \<and>
   (py_in ''order'' (lower t @ '' '' @ lower b) \<and> py_in ''job'' (lower t @ '' '' @ lower b) \<and>
    \<not> any_in product_words (lower t @ '' '' @ lower b) \<longrightarrow>
      classifier t b = Order_sync \<and>
      analyze_request self t (Some b) = Inr (handle_order_sync_request self t b))"
proof (intro conjI impI)
  show 1: "analyze_request self t (Some b) = Inr (response self (classifier t b) t b)"
    by (rule analyze_request_classifier)
  {
    assume "any_in product_words (lower t @ '' '' @ lower b)"
    then show p: "classifier t b = Product_sync" by (rule classifier_product)
    show "analyze_request self t (Some b) = Inr (handle_product_sync_request self t b)"
      using 1 p by simp
  }
  {
    assume a: "py_in ''order'' (lower t @ '' '' @ lower b) \<and>
      py_in ''job'' (lower t @ '' '' @ lower b) \<and>
      \<not> any_in product_words (lower t @ '' '' @ lower b)"
    then have "any_in order_words (lower t @ '' '' @ lower b)"
      by (auto intro: any_inI simp: order_words_def)
    with a show o: "classifier t b = Order_sync" by (simp add: classifier_order)
    show "analyze_request self t (Some b) = Inr (handle_order_sync_request self t b)"
      using 1 o by simp
  }
qed

theorem classifier_first_match_witness:
  "any_in product_words (lower ''Product variant sync fails for colors'' @ '' '' @ lower []) \<and>
   classifier ''Product variant sync fails for colors'' [] = Product_sync \<and>
   py_in ''order'' (lower ''Order job stuck'' @ '' '' @ lower ''since Monday'') \<and>
   py_in ''job'' (lower ''Order job stuck'' @ '' '' @ lower ''since Monday'') \<and>
   \<not> any_in product_words (lower ''Order job stuck'' @ '' '' @ lower ''since Monday'') \<and>
   analyze_request example_agent ''Order job stuck'' (Some ''since Monday'') =
     Inr (handle_order_sync_request example_agent ''Order job stuck'' ''since Monday'')"
proof -
  have 1: "any_in product_words (lower ''Product variant sync fails for colors'' @ '' '' @ lower [])"
    by (simp add: eval_words)
  have 2: "py_in ''order'' (lower ''Order job stuck'' @ '' '' @ lower ''since Monday'')"
    by (simp add: eval_words)
  have 3: "py_in ''job'' (lower ''Order job stuck'' @ '' '' @ lower ''since Monday'')"
    by (simp add: eval_words)
  have 4: "\<not> any_in product_words (lower ''Order job stuck'' @ '' '' @ lower ''since Monday'')"
    by (simp add: eval_words)
  from 1 2 3 4
    classifier_first_match [of example_agent "''Product variant sync fails for colors''" "[]"]
    classifier_first_match [of example_agent "''Order job stuck''" "''since Monday''"]
  show ?thesis by blast
qed

text \<open>
  Claim C6.  The title "How to setup webhook" with an empty body is answered with the
  order_sync response and not with the configuration response: webhook is in both keyword
  sets, and order_sync is tested first.
\<close>

theorem setup_webhook_is_order_sync:
  "analyze_request self ''How to setup webhook'' (Some []) =
     Inr (handle_order_sync_request self ''How to setup webhook'' []) \<and>
   analyze_request self ''How to setup webhook'' (Some []) \<noteq>
     Inr (handle_configuration_request self ''How to setup webhook'' []) \<and>
   classifier ''How to setup webhook'' [] = Order_sync \<and>
   ''webhook'' \<in> set order_words \<and> ''webhook'' \<in> set config_words"
proof -
  have c: "classifier ''How to setup webhook'' [] = Order_sync"
    by (rule classifier_order) (simp_all add: eval_words)
  have a: "analyze_request self ''How to setup webhook'' (Some []) =
     Inr (response self Order_sync ''How to setup webhook'' [])"
    using analyze_request_classifier [of self "''How to setup webhook''" "[]"] c by simp
  have "response self Order_sync ''How to setup webhook'' [] \<noteq>
     response self Configuration ''How to setup webhook'' []"
    using response_inj [of self Order_sync _ _ Configuration] by blast
  with a c show ?thesis by (simp add: order_words_def config_words_def)
qed

text \<open>
  Claim C7.  The classifier is total: on every title and every body that is a text,
  \<^verbatim>\<open>analyze_request\<close> raises nothing and returns the response of exactly one of the
  five categories (the five responses differ from one another, so the category is
  determined by what is returned); when no keyword of any set occurs, it returns the
  general response.
\<close>

theorem analyze_request_total:
  "(\<exists>!c. analyze_request self t (Some b) = Inr (response self c t b)) \<and>
   (\<not> any_in product_words (lower t @ '' '' @ lower b) \<and>
    \<not> any_in order_words (lower t @ '' '' @ lower b) \<and>
    \<not> any_in job_words (lower t @ '' '' @ lower b) \<and>
    \<not> any_in config_words (lower t @ '' '' @ lower b) \<longrightarrow>
      analyze_request self t (Some b) = Inr (general_response self t))"
proof (intro conjI impI)
  show "\<exists>!c. analyze_request self t (Some b) = Inr (response self c t b)"
  proof (rule ex1I [of _ "classifier t b"])
    show "analyze_request self t (Some b) = Inr (response self (classifier t b) t b)"
      by (rule analyze_request_classifier)
  next
    fix c
    assume "analyze_request self t (Some b) = Inr (response self c t b)"
    then have "response self c t b = response self (classifier t b) t b"
      by (simp add: analyze_request_classifier)
    then show "c = classifier t b" by (rule response_inj)
  qed
next
  assume "\<not> any_in product_words (lower t @ '' '' @ lower b) \<and>
    \<not> any_in order_words (lower t @ '' '' @ lower b) \<and>
    \<not> any_in job_words (lower t @ '' '' @ lower b) \<and>
    \<not> any_in config_words (lower t @ '' '' @ lower b)"
  then have "classifier t b = General" by (simp add: classifier_general)
  then show "analyze_request self t (Some b) = Inr (general_response self t)"
    by (simp add: analyze_request_classifier)
qed

theorem analyze_request_total_witness:
  "\<not> any_in product_words (lower ''Hello'' @ '' '' @ lower ''there'') \<and>
   \<not> any_in order_words (lower ''Hello'' @ '' '' @ lower ''there'') \<and>
   \<not> any_in job_words (lower ''Hello'' @ '' '' @ lower ''there'') \<and>
   \<not> any_in config_words (lower ''Hello'' @ '' '' @ lower ''there'') \<and>
   analyze_request example_agent ''Hello'' (Some ''there'') =
     Inr (general_response example_agent ''Hello'')"
proof -
  have "\<not> any_in product_words (lower ''Hello'' @ '' '' @ lower ''there'')"
    and "\<not> any_in order_words (lower ''Hello'' @ '' '' @ lower ''there'')"
    and "\<not> any_in job_words (lower ''Hello'' @ '' '' @ lower ''there'')"
    and "\<not> any_in config_words (lower ''Hello'' @ '' '' @ lower ''there'')"
    by (simp_all add: eval_words)
  with analyze_request_total [of example_agent "''Hello''" "''there''"]
  show ?thesis by blast
qed

text \<open>
  Claim C10.  The response of each of the four categories other than general is a fixed
  text: the four handlers do not read their title and body arguments, so two issues of the
  same such category get the same comment.  Only the general response embeds the title,
  between a fixed prefix and a fixed suffix, and so differs whenever the titles differ.
\<close>

theorem category_response_is_constant:
  "(classifier t b = classifier t' b' \<and> classifier t b \<noteq> General \<longrightarrow>
      analyze_request self t (Some b) = analyze_request self t' (Some b')) \<and>
   handle_product_sync_request self t b = handle_product_sync_request self t' b' \<and>
   handle_order_sync_request self t b = handle_order_sync_request self t' b' \<and>
   handle_job_queue_request self t b = handle_job_queue_request self t' b' \<and>
   handle_configuration_request self t b = handle_configuration_request self t' b' \<and>
   (general_response self t = general_response self t') = (t = t') \<and>
   (\<exists>pre post. \<forall>x. general_response self x = pre @ x @ post)"
proof -
  have p: "handle_product_sync_request self t b = handle_product_sync_request self t' b'"
    unfolding handle_product_sync_request_def by (rule refl)
  have o: "handle_order_sync_request self t b = handle_order_sync_request self t' b'"
    unfolding handle_order_sync_request_def by (rule refl)
  have j: "handle_job_queue_request self t b = handle_job_queue_request self t' b'"
    unfolding handle_job_queue_request_def by (rule refl)
  have c: "handle_configuration_request self t b = handle_configuration_request self t' b'"
    unfolding handle_configuration_request_def by (rule refl)
  have r: "response self k t b = response self k t' b'" if "k \<noteq> General" for k
    using that p o j c by (cases k) simp_all
  have 1: "classifier t b = classifier t' b' \<and> classifier t b \<noteq> General \<longrightarrow>
      analyze_request self t (Some b) = analyze_request self t' (Some b')"
    using r [of "classifier t b"] by (auto simp: analyze_request_classifier)
  have g: "(general_response self t = general_response self t') = (t = t')"
    using general_response_inj [of self t t'] by blast
  from 1 p o j c g general_response_title [of self] show ?thesis by blast
qed

theorem category_response_is_constant_witness:
  "classifier ''Product A'' ''first'' = classifier ''new color'' ''second'' \<and>
   classifier ''Product A'' ''first'' \<noteq> General \<and>
   analyze_request example_agent ''Product A'' (Some ''first'') =
     analyze_request example_agent ''new color'' (Some ''second'')"
proof -
  have 1: "classifier ''Product A'' ''first'' = Product_sync"
    by (rule classifier_product) (simp add: eval_words)
  have 2: "classifier ''new color'' ''second'' = Product_sync"
    by (rule classifier_product) (simp add: eval_words)
  from 1 2
    category_response_is_constant [of "''Product A''" "''first''" "''new color''" "''second''" example_agent]
  show ?thesis by simp
qed

lemmas eval_tracker = example_tracker_def tracker_without_home_def tracker_with_rejection_def
  home_repo_def odoo_repo_def repos_to_monitor_def

lemma repo_step_nth:
  assumes "repo_step n (Some r) ro'" and "j < length (issues r)"
  shows "\<exists>r'. ro' = Some r' \<and> r' = r\<lparr>issues := issues r'\<rparr> \<and>
           length (issues r') = length (issues r) \<and>
           issue_step n (issues r ! j) (issues r' ! j)"
proof (cases ro')
  case None
  with assms show ?thesis by (simp add: repo_step_def)
next
  case (Some r')
  with assms have eq: "r' = r\<lparr>issues := issues r'\<rparr>"
    and all2: "list_all2 (issue_step n) (issues r) (issues r')"
    by (simp_all add: repo_step_def)
  from all2 have "length (issues r') = length (issues r)"
    by (simp add: list_all2_lengthD)
  moreover from all2 assms(2) have "issue_step n (issues r ! j) (issues r' ! j)"
    by (rule list_all2_nthD)
  ultimately show ?thesis using Some eq by blast
qed

text \<open>
  Claim C9.  When \<^verbatim>\<open>GITHUB_TOKEN\<close> is not set, a run logs the error and stops: the
  tracker is left as it is and the events of the run hold no call on the collaborator,
  neither \<^verbatim>\<open>get_repo\<close> nor \<^verbatim>\<open>get_issues\<close> nor \<^verbatim>\<open>get_comments\<close> nor
  \<^verbatim>\<open>create_comment\<close>.
\<close>

theorem missing_token_is_no_op:
  "env ''GITHUB_TOKEN'' = None \<longrightarrow>
     process_issues (init env) tr = (tr, [Error Token_not_set]) \<and>
     main env tr = (tr, [Info Starting, Error Token_not_set]) \<and>
     filter is_call (snd (main env tr)) = []"
  by (simp add: process_issues_def main_def init_def truthy_def)

theorem missing_token_is_no_op_witness:
  "(\<lambda>k. None) ''GITHUB_TOKEN'' = (None :: string option) \<and>
   main (\<lambda>k. None) example_tracker = (example_tracker, [Info Starting, Error Token_not_set])"
  using missing_token_is_no_op [of "\<lambda>k. None" example_tracker] by simp

text \<open>
  Claim C5.  An issue of a monitored repository whose lower-cased title and body contain
  none of the seven relevance keywords is never commented on: the loop body does nothing
  on it, and after any number of sweeps the issue at its position is the issue it was.
  Nothing is assumed on how the classifier would answer it.
\<close>

theorem irrelevant_issue_never_commented:
  assumes "n \<in> set repos_to_monitor" and "tr n = Some r" and "j < length (issues r)"
    and "body (issues r ! j) = Some b"
    and "\<not> any_in relevance_words (lower (title (issues r ! j)) @ '' '' @ lower b)"
  shows "respond_if_relevant self n (issues r ! j) = (None, issues r ! j, []) \<and>
         (\<exists>r'. sweeps self k tr n = Some r' \<and> length (issues r') = length (issues r) \<and>
                issues r' ! j = issues r ! j)"
proof
  from assms(4,5) have m: "mentions_ecommerce (issues r ! j) = Inr False"
    by (simp add: mentions_ecommerce_def)
  then show "respond_if_relevant self n (issues r ! j) = (None, issues r ! j, [])"
    by (simp add: respond_if_relevant_def)
  from assms(1) have "n \<noteq> home_repo" using home_not_monitored by auto
  with m have nq: "\<not> qualifies n (issues r ! j)" by (simp add: qualifies_def)
  have "repo_step n (Some r) (sweeps self k tr n)"
    using sweeps_step [of n tr self k] assms(2) by simp
  from repo_step_nth [OF this assms(3)] nq
  show "\<exists>r'. sweeps self k tr n = Some r' \<and> length (issues r') = length (issues r) \<and>
                issues r' ! j = issues r ! j"
    by (auto simp: issue_step_def)
qed

theorem irrelevant_issue_never_commented_witness:
  "odoo_repo \<in> set repos_to_monitor \<and>
   example_tracker odoo_repo =
     Some \<lparr>issues = [order_issue, webhook_issue], get_issues_raises = False\<rparr> \<and>
   body order_issue = Some ''since Monday'' \<and>
   \<not> any_in relevance_words (lower (title order_issue) @ '' '' @ lower ''since Monday'') \<and>
   classifier (title order_issue) ''since Monday'' = Order_sync \<and>
   (\<exists>r'. sweeps example_agent 3 example_tracker odoo_repo = Some r' \<and>
      issues r' ! 0 = order_issue)"
proof -
  let ?r = "\<lparr>issues = [order_issue, webhook_issue], get_issues_raises = False\<rparr>"
  have 1: "odoo_repo \<in> set repos_to_monitor" by (simp add: eval_tracker)
  have 2: "example_tracker odoo_repo = Some ?r" by (simp add: eval_tracker)
  have 3: "0 < length (issues ?r)" by simp
  have b: "body order_issue = Some ''since Monday''" by (simp add: order_issue_def)
  have w: "\<not> any_in relevance_words (lower (title order_issue) @ '' '' @ lower ''since Monday'')"
    by (simp add: order_issue_def eval_words)
  have 4: "body (issues ?r ! 0) = Some ''since Monday''" using b by simp
  have 5: "\<not> any_in relevance_words (lower (title (issues ?r ! 0)) @ '' '' @ lower ''since Monday'')"
    using w by simp
  have 6: "classifier (title order_issue) ''since Monday'' = Order_sync"
    by (rule classifier_order) (simp_all add: order_issue_def eval_words)
  have "\<exists>r'. sweeps example_agent 3 example_tracker odoo_repo = Some r' \<and>
      length (issues r') = length (issues ?r) \<and> issues r' ! 0 = issues ?r ! 0"
    using irrelevant_issue_never_commented [where n = odoo_repo and tr = example_tracker
      and r = "?r" and j = 0 and b = "''since Monday''" and self = example_agent and k = 3,
      OF 1 2 3 4 5] by (rule conjunct2)
  then have 7: "\<exists>r'. sweeps example_agent 3 example_tracker odoo_repo = Some r' \<and>
      issues r' ! 0 = order_issue" by auto
  from 1 2 b w 6 7 show ?thesis by (intro conjI)
qed

lemma webhook_issue_relevant: "mentions_ecommerce webhook_issue = Inr True"
  by (simp add: mentions_ecommerce_def webhook_issue_def eval_words)

lemma webhook_issue_unmarked: "\<not> bears_marker webhook_issue"
  by (simp add: bears_marker_def webhook_issue_def)



lemma tokens_usable_example_agent: "tokens_usable example_agent"
  by (simp add: tokens_usable_def example_agent_def init_def truthy_def)








lemma respond_webhook_issue:
  "respond_if_relevant example_agent odoo_repo webhook_issue =
     (None, webhook_issue\<lparr>comments := [answer example_agent webhook_issue]\<rparr>,
      [Get_comments 7, Create_comment 7 (answer example_agent webhook_issue),
       Info (Responded_to odoo_repo 7)])"
proof -
  have "respond example_agent (Responded_to odoo_repo) webhook_issue =
     (None, webhook_issue\<lparr>comments := comments webhook_issue @ [answer example_agent webhook_issue]\<rparr>,
      [Get_comments (number webhook_issue),
       Create_comment (number webhook_issue) (answer example_agent webhook_issue),
       Info (Responded_to odoo_repo (number webhook_issue))])"
    by (rule respond_posts [OF _ webhook_issue_unmarked]) (simp_all add: webhook_issue_def)
  moreover have "comments webhook_issue = []" "number webhook_issue = 7"
    by (simp_all add: webhook_issue_def)
  ultimately show ?thesis by (simp add: respond_if_relevant_def webhook_issue_relevant)
qed

text \<open>
  Claim C4.  The claim asks that a failure in one repository leave the other repositories
  processed.  The loop over the monitored repositories does that, the scan of the home
  repository does not: on a tracker where \<^verbatim>\<open>get_repo\<close> raises for the home
  repository, the run ends after that one call and leaves unanswered an issue of a
  monitored repository which the monitoring loop, run on the same tracker, answers.
\<close>

theorem home_failure_aborts_monitoring:
  "process_issues example_agent tracker_without_home =
     (tracker_without_home,
      [Get_repo home_repo, Error (Agent_error GithubException),
       Error (Traceback GithubException)]) \<and>
   tracker_without_home odoo_repo =
     Some \<lparr>issues = [webhook_issue], get_issues_raises = False\<rparr> \<and>
   fst (monitor example_agent repos_to_monitor tracker_without_home) odoo_repo =
     Some \<lparr>issues = [webhook_issue\<lparr>comments := [answer example_agent webhook_issue]\<rparr>],
           get_issues_raises = False\<rparr>"
proof (intro conjI)
  show "process_issues example_agent tracker_without_home =
     (tracker_without_home,
      [Get_repo home_repo, Error (Agent_error GithubException),
       Error (Traceback GithubException)])"
    by (simp add: process_issues_usable tokens_usable_example_agent scan_def
        tracker_without_home_def home_repo_def odoo_repo_def)
  show "tracker_without_home odoo_repo =
     Some \<lparr>issues = [webhook_issue], get_issues_raises = False\<rparr>"
    by (simp add: tracker_without_home_def)
  have "scan odoo_repo (respond_if_relevant example_agent odoo_repo) tracker_without_home =
     (None, tracker_without_home(odoo_repo \<mapsto>
        \<lparr>issues = [webhook_issue\<lparr>comments := [answer example_agent webhook_issue]\<rparr>],
         get_issues_raises = False\<rparr>),
      [Get_repo odoo_repo, Get_issues odoo_repo, Get_comments 7,
       Create_comment 7 (answer example_agent webhook_issue), Info (Responded_to odoo_repo 7)])"
    by (simp add: scan_def tracker_without_home_def respond_webhook_issue)
  then have "fst (monitor example_agent repos_to_monitor tracker_without_home) =
     fst (monitor example_agent (tl repos_to_monitor) (tracker_without_home(odoo_repo \<mapsto>
        \<lparr>issues = [webhook_issue\<lparr>comments := [answer example_agent webhook_issue]\<rparr>],
         get_issues_raises = False\<rparr>)))"
    by (simp add: repos_to_monitor_def odoo_repo_def [symmetric] split: prod.splits)
  moreover have "odoo_repo \<notin> set (tl repos_to_monitor)"
    by (simp add: repos_to_monitor_def odoo_repo_def)
  ultimately show "fst (monitor example_agent repos_to_monitor tracker_without_home) odoo_repo =
     Some \<lparr>issues = [webhook_issue\<lparr>comments := [answer example_agent webhook_issue]\<rparr>],
           get_issues_raises = False\<rparr>"
    by (simp add: monitor_frame)
qed

lemma for_each_append:
  "for_each f xs = (None, xs', evs) \<Longrightarrow>
     for_each f (xs @ ys) =
       (case for_each f ys of (r, ys', evs') \<Rightarrow> (r, xs' @ ys', evs @ evs'))"
proof (induction xs arbitrary: xs' evs)
  case Nil
  then show ?case by (simp split: prod.splits)
next
  case (Cons i xs)
  obtain r i' ev where fi: "f i = (r, i', ev)" by (cases "f i") auto
  obtain r2 zs ev2 where rest: "for_each f xs = (r2, zs, ev2)"
    by (cases "for_each f xs") auto
  from Cons.prems fi rest have r: "r = None" by (cases r) simp_all
  with Cons.prems fi rest have eq: "r2 = None" "xs' = i' # zs" "evs = ev @ ev2" by simp_all
  from Cons.IH [of zs ev2] rest eq
  have "for_each f (xs @ ys) =
       (case for_each f ys of (r, ys', evs') \<Rightarrow> (r, zs @ ys', ev2 @ evs'))" by simp
  with fi r eq show ?case by (simp split: prod.splits)
qed

lemma respond_raises_unchanged: "respond self msg i = (Some e, i', evs) \<Longrightarrow> i' = i"
  by (auto dest: respond_step)

lemma respond_if_relevant_raises_unchanged:
  "respond_if_relevant self n i = (Some e, i', evs) \<Longrightarrow> i' = i"
  by (auto dest: respond_if_relevant_step)

text \<open>
  Claim C8, as stated, fails.  In a monitored repository with two relevant, unanswered
  issues, \<^verbatim>\<open>create_comment\<close> raises on the first: the run never visits the second
  (no call on issue 7 among its events) and leaves the tracker as it was, although the
  loop body on the second issue alone raises nothing and posts a comment.
\<close>

theorem issue_failure_is_not_isolated_counterexample:
  "process_issues example_agent tracker_with_rejection =
     (tracker_with_rejection,
      [Get_repo home_repo, Get_issues home_repo,
       Get_repo odoo_repo, Get_issues odoo_repo,
       Get_comments 9, Create_comment 9 (answer example_agent rejected_issue),
       Error (Error_monitoring odoo_repo GithubException),
       Get_repo ''jayo2005/paint-project-orchestration'',
       Error (Error_monitoring ''jayo2005/paint-project-orchestration'' GithubException),
       Get_repo ''jayo2005/paint-wordpress-operations'',
       Error (Error_monitoring ''jayo2005/paint-wordpress-operations'' GithubException)]) \<and>
   tracker_with_rejection odoo_repo =
     Some \<lparr>issues = [rejected_issue, webhook_issue], get_issues_raises = False\<rparr> \<and>
   comments webhook_issue = [] \<and>
   respond_if_relevant example_agent odoo_repo webhook_issue =
     (None, webhook_issue\<lparr>comments := [answer example_agent webhook_issue]\<rparr>,
      [Get_comments 7, Create_comment 7 (answer example_agent webhook_issue),
       Info (Responded_to odoo_repo 7)])"
proof (intro conjI)
  have m: "mentions_ecommerce rejected_issue = Inr True"
    by (simp add: mentions_ecommerce_def rejected_issue_def eval_words)
  have "respond example_agent (Responded_to odoo_repo) rejected_issue =
     (Some GithubException, rejected_issue,
      [Get_comments (number rejected_issue),
       Create_comment (number rejected_issue) (answer example_agent rejected_issue)])"
    by (rule respond_raises_create [where b = "''fails''"])
       (simp_all add: rejected_issue_def bears_marker_def)
  with m have r: "respond_if_relevant example_agent odoo_repo rejected_issue =
     (Some GithubException, rejected_issue,
      [Get_comments 9, Create_comment 9 (answer example_agent rejected_issue)])"
    by (simp add: respond_if_relevant_def rejected_issue_def)
  have lo: "tracker_with_rejection odoo_repo =
      Some \<lparr>issues = [rejected_issue, webhook_issue], get_issues_raises = False\<rparr>"
    by (simp add: tracker_with_rejection_def)
  have lh: "tracker_with_rejection home_repo = Some \<lparr>issues = [], get_issues_raises = False\<rparr>"
    by (simp add: tracker_with_rejection_def home_repo_def odoo_repo_def)
  have t: "tracker_with_rejection(odoo_repo \<mapsto>
      \<lparr>issues = [rejected_issue, webhook_issue], get_issues_raises = False\<rparr>) =
      tracker_with_rejection"
    by (rule fun_upd_idem) (simp add: tracker_with_rejection_def home_repo_def odoo_repo_def)
  have h: "tracker_with_rejection(home_repo \<mapsto> \<lparr>issues = [], get_issues_raises = False\<rparr>) =
      tracker_with_rejection"
    by (rule fun_upd_idem) (simp add: tracker_with_rejection_def home_repo_def odoo_repo_def)
  have s: "scan odoo_repo (respond_if_relevant example_agent odoo_repo) tracker_with_rejection =
     (Some GithubException, tracker_with_rejection,
      [Get_repo odoo_repo, Get_issues odoo_repo, Get_comments 9,
       Create_comment 9 (answer example_agent rejected_issue)])"
    by (simp add: scan_def r lo t)
  have s0: "scan home_repo (respond example_agent Responded_to_issue) tracker_with_rejection =
     (None, tracker_with_rejection, [Get_repo home_repo, Get_issues home_repo])"
    by (simp add: scan_def lh h)
  have s2: "scan ''jayo2005/paint-project-orchestration'' f tracker_with_rejection =
     (Some GithubException, tracker_with_rejection, [Get_repo ''jayo2005/paint-project-orchestration''])"
    for f by (simp add: scan_def tracker_with_rejection_def eval_tracker)
  have s3: "scan ''jayo2005/paint-wordpress-operations'' f tracker_with_rejection =
     (Some GithubException, tracker_with_rejection, [Get_repo ''jayo2005/paint-wordpress-operations''])"
    for f by (simp add: scan_def tracker_with_rejection_def eval_tracker)
  have rm: "repos_to_monitor = [odoo_repo, ''jayo2005/paint-project-orchestration'',
      ''jayo2005/paint-wordpress-operations'']"
    by (simp add: repos_to_monitor_def odoo_repo_def)
  show "process_issues example_agent tracker_with_rejection =
     (tracker_with_rejection,
      [Get_repo home_repo, Get_issues home_repo,
       Get_repo odoo_repo, Get_issues odoo_repo,
       Get_comments 9, Create_comment 9 (answer example_agent rejected_issue),
       Error (Error_monitoring odoo_repo GithubException),
       Get_repo ''jayo2005/paint-project-orchestration'',
       Error (Error_monitoring ''jayo2005/paint-project-orchestration'' GithubException),
       Get_repo ''jayo2005/paint-wordpress-operations'',
       Error (Error_monitoring ''jayo2005/paint-wordpress-operations'' GithubException)])"
    by (simp add: process_issues_usable tokens_usable_example_agent s0 rm s s2 s3)
  show "tracker_with_rejection odoo_repo =
     Some \<lparr>issues = [rejected_issue, webhook_issue], get_issues_raises = False\<rparr>"
    by (simp add: tracker_with_rejection_def)
  show "comments webhook_issue = []" by (simp add: webhook_issue_def)
  show "respond_if_relevant example_agent odoo_repo webhook_issue =
     (None, webhook_issue\<lparr>comments := [answer example_agent webhook_issue]\<rparr>,
      [Get_comments 7, Create_comment 7 (answer example_agent webhook_issue),
       Info (Responded_to odoo_repo 7)])"
    by (rule respond_webhook_issue)
qed

text \<open>
  Claim C8, amended.  A failure on one issue of a monitored repository is not isolated
  from the issues after it: the issues before it keep what was done to them, the failing
  issue and all issues after it are left as they are, the failure is logged once, with the
  repository's name, and the loop goes on with the next monitored repository.
\<close>

theorem issue_failure_skips_rest_of_repository:
  assumes r: "tr n = Some r" and g: "\<not> get_issues_raises r"
    and split: "issues r = before @ i # rest"
    and before: "for_each (respond_if_relevant self n) before = (None, before', evs)"
    and raises: "respond_if_relevant self n i = (Some e, i', evs_i)"
  shows "i' = i \<and>
         scan n (respond_if_relevant self n) tr =
           (Some e, tr(n \<mapsto> r\<lparr>issues := before' @ i # rest\<rparr>),
            Get_repo n # Get_issues n # evs @ evs_i) \<and>
         monitor self (n # ns) tr =
           (fst (monitor self ns (tr(n \<mapsto> r\<lparr>issues := before' @ i # rest\<rparr>))),
            Get_repo n # Get_issues n # evs @ evs_i @
            Error (Error_monitoring n e) #
            snd (monitor self ns (tr(n \<mapsto> r\<lparr>issues := before' @ i # rest\<rparr>))))"
proof -
  have i: "i' = i" using raises by (rule respond_if_relevant_raises_unchanged)
  have "for_each (respond_if_relevant self n) (i # rest) = (Some e, i # rest, evs_i)"
    using raises i by simp
  with for_each_append [OF before, of "i # rest"]
  have "for_each (respond_if_relevant self n) (issues r) =
          (Some e, before' @ i # rest, evs @ evs_i)"
    by (simp add: split)
  with r g have s: "scan n (respond_if_relevant self n) tr =
           (Some e, tr(n \<mapsto> r\<lparr>issues := before' @ i # rest\<rparr>),
            Get_repo n # Get_issues n # evs @ evs_i)"
    by (simp add: scan_def)
  then have "monitor self (n # ns) tr =
           (fst (monitor self ns (tr(n \<mapsto> r\<lparr>issues := before' @ i # rest\<rparr>))),
            Get_repo n # Get_issues n # evs @ evs_i @
            Error (Error_monitoring n e) #
            snd (monitor self ns (tr(n \<mapsto> r\<lparr>issues := before' @ i # rest\<rparr>))))"
    by (simp split: prod.splits)
  with i s show ?thesis by simp
qed

theorem issue_failure_skips_rest_of_repository_witness:
  "tracker_with_rejection odoo_repo =
     Some \<lparr>issues = [rejected_issue, webhook_issue], get_issues_raises = False\<rparr> \<and>
   respond_if_relevant example_agent odoo_repo rejected_issue =
     (Some GithubException, rejected_issue,
      [Get_comments 9, Create_comment 9 (answer example_agent rejected_issue)]) \<and>
   monitor example_agent [odoo_repo] tracker_with_rejection =
     (tracker_with_rejection,
      [Get_repo odoo_repo, Get_issues odoo_repo, Get_comments 9,
       Create_comment 9 (answer example_agent rejected_issue),
       Error (Error_monitoring odoo_repo GithubException)])"
proof -
  let ?r = "\<lparr>issues = [rejected_issue, webhook_issue], get_issues_raises = False\<rparr>"
  have lo: "tracker_with_rejection odoo_repo = Some ?r"
    by (simp add: tracker_with_rejection_def)
  have g: "\<not> get_issues_raises ?r" by simp
  have sp: "issues ?r = [] @ rejected_issue # [webhook_issue]" by simp
  have b: "for_each (respond_if_relevant example_agent odoo_repo) [] = (None, [], [])" by simp
  have m: "mentions_ecommerce rejected_issue = Inr True"
    by (simp add: mentions_ecommerce_def rejected_issue_def eval_words)
  have "respond example_agent (Responded_to odoo_repo) rejected_issue =
     (Some GithubException, rejected_issue,
      [Get_comments (number rejected_issue),
       Create_comment (number rejected_issue) (answer example_agent rejected_issue)])"
    by (rule respond_raises_create [where b = "''fails''"])
       (simp_all add: rejected_issue_def bears_marker_def)
  with m have ra: "respond_if_relevant example_agent odoo_repo rejected_issue =
     (Some GithubException, rejected_issue,
      [Get_comments 9, Create_comment 9 (answer example_agent rejected_issue)])"
    by (simp add: respond_if_relevant_def rejected_issue_def)
  have t: "tracker_with_rejection(odoo_repo \<mapsto> ?r) = tracker_with_rejection"
    by (rule fun_upd_idem) (rule lo)
  from issue_failure_skips_rest_of_repository [where ns = "[]" and tr = tracker_with_rejection
      and n = odoo_repo and r = "?r" and before = "[]" and i = rejected_issue
      and rest = "[webhook_issue]" and self = example_agent and before' = "[]" and evs = "[]"
      and e = GithubException and i' = rejected_issue
      and evs_i = "[Get_comments 9, Create_comment 9 (answer example_agent rejected_issue)]",
      OF lo g sp b ra]
  have "monitor example_agent [odoo_repo] tracker_with_rejection =
     (tracker_with_rejection,
      [Get_repo odoo_repo, Get_issues odoo_repo, Get_comments 9,
       Create_comment 9 (answer example_agent rejected_issue),
       Error (Error_monitoring odoo_repo GithubException)])"
    by (simp add: t)
  with lo ra show ?thesis by (intro conjI)
qed

end
